theory Spec2Isabelle
  imports Complex_Main "HOL-Library.Log_Nat" "HOL-Library.Sublist"
begin

section \<open>The sunspot dashboard: data model\<close>

text \<open>
  \<^verbatim>\<open>SolarDashboard.py\<close> keeps two module-level objects that its Dash callback
  \<^verbatim>\<open>_refresh_plots\<close> reads and writes: the pandas dataframe \<^verbatim>\<open>df\<close> and the plotly
  figure \<^verbatim>\<open>fig\<close>. Both are modelled as values of an explicit state record that the
  callback takes and returns.
\<close>

subsection \<open>Floating-point columns\<close>

text \<open>
  A \<^verbatim>\<open>float64\<close> cell is a finite value, an infinity or NaN. Finite values are kept as
  exact rationals; the sign of zero is not modelled. The only arithmetic the program
  performs on floats is \<^verbatim>\<open>%\<close>, in the lambda of \<^verbatim>\<open>df.apply\<close>, where the left operand
  is a \<^verbatim>\<open>numpy.float64\<close> and the cycle length, integer or float, is converted to one.
\<close>

datatype float64 = Fin rat | PInf | NInf | NaN

text \<open>
  Rounding of an exact value to 53 significant bits, ties to even. The one place that
  rounds is the sum of two floats of opposite sign: it cannot overflow, and where it is
  subnormal it is exact, so the exponent range needs no modelling.
\<close>

definition ilog2 :: "rat \<Rightarrow> int" where
  "ilog2 q = (let (n, d) = quotient_of \<bar>q\<bar>; k = bitlen n - bitlen d
              in if 2 powi k \<le> \<bar>q\<bar> then k else k - 1)"

definition round_even :: "rat \<Rightarrow> int" where
  "round_even q = (let f = \<lfloor>q\<rfloor>; d = q - of_int f
                   in if d < 1 / 2 then f
                      else if 1 / 2 < d then f + 1
                      else if even f then f else f + 1)"

definition round53 :: "rat \<Rightarrow> rat" where
  "round53 q = (if q = 0 then 0
                else let s = 2 powi (ilog2 q - 52)
                     in of_int (round_even (q / s)) * s)"

text \<open>C's \<^verbatim>\<open>fmod\<close> on finite operands: exact, with the sign of the dividend.\<close>

definition trunc :: "rat \<Rightarrow> int" where
  "trunc q = (if 0 \<le> q then \<lfloor>q\<rfloor> else \<lceil>q\<rceil>)"

definition fmod :: "rat \<Rightarrow> rat \<Rightarrow> rat" where
  "fmod a b = a - b * of_int (trunc (a / b))"

text \<open>
  \<^verbatim>\<open>a % b\<close> on a \<^verbatim>\<open>numpy.float64\<close>: \<^verbatim>\<open>fmod\<close>, NaN for a zero divisor (a warning,
  not an exception), and otherwise the divisor is added once when the signs of the
  divisor and of a non-zero \<^verbatim>\<open>fmod\<close> differ. That addition is the one rounded step.
\<close>

fun remainder :: "float64 \<Rightarrow> float64 \<Rightarrow> float64" where
  "remainder NaN b = NaN"
| "remainder a NaN = NaN"
| "remainder PInf b = NaN"
| "remainder NInf b = NaN"
| "remainder (Fin a) PInf = (if a < 0 then PInf else Fin a)"
| "remainder (Fin a) NInf = (if 0 < a then NInf else Fin a)"
| "remainder (Fin a) (Fin b) =
     (if b = 0 then NaN
      else let m = fmod a b
           in if m \<noteq> 0 \<and> (b < 0) \<noteq> (m < 0) then Fin (round53 (m + b)) else Fin m)"

subsection \<open>The dataframe\<close>

text \<open>
  One record per line of the data file. \<open>parsed_row\<close> holds the seven columns the
  file is parsed into; \<open>row\<close> adds the derived column \<^verbatim>\<open>Variability\<close> that the
  program stores in the same dataframe.
\<close>

record parsed_row =
  Year :: int
  Month :: int
  Date_in_Fraction_of_Year :: float64
  Monthly_Mean :: float64
  Monthly_Mean_STD :: float64
  Number_of_Observations :: float64
  Definitive :: int

record row = parsed_row +
  Variability :: float64

type_synonym dataframe = "row list"

definition parsed :: "row \<Rightarrow> parsed_row" where
  "parsed r = parsed_row.truncate r"

text \<open>
  \<^verbatim>\<open>df['Variability'] = df.apply(lambda row: row['Date in Fraction of Year'] % c, axis=1)\<close>
  on a dataframe that may or may not have the column yet.
\<close>

definition apply_Variability :: "float64 \<Rightarrow> 'a parsed_row_scheme list \<Rightarrow> dataframe" where
  "apply_Variability c rows =
     map (\<lambda>r. parsed_row.extend (parsed_row.truncate r)
                 (row.fields (remainder (Date_in_Fraction_of_Year r) c))) rows"

text \<open>
  \<^verbatim>\<open>df.iloc[::n]\<close>. A positive step takes positions \<open>0, n, 2n, \<dots>\<close>; a negative step
  walks back from the last row; step zero raises \<^verbatim>\<open>ValueError\<close>.
\<close>

datatype error = ValueError

fun every_nth :: "nat \<Rightarrow> 'a list \<Rightarrow> 'a list" where
  "every_nth k [] = []"
| "every_nth k (x # xs) = x # every_nth k (drop (k - 1) xs)"

definition iloc_step :: "'a list \<Rightarrow> int \<Rightarrow> error + 'a list" where
  "iloc_step xs n =
     (if n = 0 then Inl ValueError
      else if 0 < n then Inr (every_nth (nat n) xs)
      else Inr (every_nth (nat (- n)) (rev xs)))"

subsection \<open>Figures\<close>

text \<open>
  A plotly figure as far as the program sets it: a title, the two axis titles, the
  range of the x axis and the tuple of traces. The title of the variability plot
  interpolates the cycle length; it is kept as that number, not rendered.
\<close>

datatype title = Text string | Sunspot_Cycle_Length float64

record trace =
  trace_name :: string
  trace_mode :: string
  trace_line_color :: "string option"
  trace_x :: "float64 list"
  trace_y :: "float64 list"

record figure =
  fig_title :: title
  xaxis_title :: string
  yaxis_title :: string
  xaxis_range :: "(int \<times> int) option"
  fig_data :: "trace list"

text \<open>\<^verbatim>\<open>px.line(df, x='Date in Fraction of Year', y='Monthly Mean', labels=..., title=...)\<close>\<close>

definition px_line :: "'a parsed_row_scheme list \<Rightarrow> figure" where
  "px_line rows =
     \<lparr>fig_title = Text ''Monthly Means of Sunspot Counts'',
      xaxis_title = ''Date (Years)'',
      yaxis_title = ''Mean Number of Sunspots'',
      xaxis_range = None,
      fig_data = [\<lparr>trace_name = [], trace_mode = ''lines'', trace_line_color = None,
                   trace_x = map Date_in_Fraction_of_Year rows,
                   trace_y = map Monthly_Mean rows\<rparr>]\<rparr>"

text \<open>
  \<^verbatim>\<open>px.scatter(df, x='Variability', y='Monthly Mean', labels=..., title=...)\<close>; the
  argument \<open>xl\<close> is what \<^verbatim>\<open>labels\<close> maps \<^verbatim>\<open>'Variability'\<close> to.
\<close>

definition px_scatter :: "dataframe \<Rightarrow> string \<Rightarrow> float64 \<Rightarrow> figure" where
  "px_scatter frame xl c =
     \<lparr>fig_title = Sunspot_Cycle_Length c,
      xaxis_title = xl,
      yaxis_title = ''Monthly Mean'',
      xaxis_range = None,
      fig_data = [\<lparr>trace_name = [], trace_mode = ''markers'', trace_line_color = None,
                   trace_x = map Variability frame,
                   trace_y = map Monthly_Mean frame\<rparr>]\<rparr>"

text \<open>
  \<^verbatim>\<open>go.Scatter(x=list(smoothed_df['Date in Fraction of Year']),
  y=list(smoothed_df['Monthly Mean']), mode='lines', name='Smoothed', line_color='red')\<close>
\<close>

definition Smoothed :: "dataframe \<Rightarrow> trace" where
  "Smoothed smoothed_df =
     \<lparr>trace_name = ''Smoothed'', trace_mode = ''lines'', trace_line_color = Some ''red'',
      trace_x = map Date_in_Fraction_of_Year smoothed_df,
      trace_y = map Monthly_Mean smoothed_df\<rparr>"

definition points :: "trace \<Rightarrow> (float64 \<times> float64) list" where
  "points t = zip (trace_x t) (trace_y t)"

subsection \<open>The label\<close>

text \<open>Python's \<^verbatim>\<open>str\<close> of an integer, as the f-string renders the slider values.\<close>

fun digits :: "nat \<Rightarrow> string" where
  "digits n = (if n < 10 then [''0123456789'' ! n]
               else digits (n div 10) @ [''0123456789'' ! (n mod 10)])"

declare digits.simps [simp del]

definition str :: "int \<Rightarrow> string" where
  "str i = (if i < 0 then ''-'' @ digits (nat (- i)) else digits (nat i))"

definition viewing_the_years :: "int \<times> int \<Rightarrow> string" where
  "viewing_the_years v =
     ''You are currently viewing the years '' @ str (fst v) @ '' to '' @ str (snd v) @ ''!''"

section \<open>The program\<close>

record state =
  df :: dataframe
  fig :: figure

text \<open>
  Module level, lines 11 to 40: the dataframe as parsed, the line plot, the starting
  label, the \<^verbatim>\<open>Variability\<close> column for a cycle of 11 years and its scatter plot.
\<close>

definition startup :: "parsed_row list \<Rightarrow> state" where
  "startup rows = \<lparr>df = apply_Variability (Fin 11) rows, fig = px_line rows\<rparr>"

definition year_label :: string where
  "year_label = ''You are currently viewing the years 1749 to 2022!''"

definition var_fig :: "parsed_row list \<Rightarrow> figure" where
  "var_fig rows = px_scatter (apply_Variability (Fin 11) rows) ''Number of Sunspots'' (Fin 11)"

text \<open>The starting values of the three input components in \<^verbatim>\<open>app.layout\<close>.\<close>

definition year_slider :: "int \<times> int" where
  "year_slider = (1749, 2022)"

definition smoothness :: int where
  "smoothness = 5"

definition cycle_len :: float64 where
  "cycle_len = Fin 11"

text \<open>
  The callback:
  \<^verbatim>\<open>
  def _refresh_plots(year_slider_value, smoothness_value, cycle_length_value):
      fig.update_xaxes(range=[year_slider_value[0], year_slider_value[1]])
      fig.data = (fig.data[0:1])
      smoothed_df = df.iloc[::smoothness_value]
      fig.add_trace(go.Scatter(x=list(smoothed_df['Date in Fraction of Year']),
                               y=list(smoothed_df['Monthly Mean']),
                               mode='lines', name='Smoothed', line_color='red'))
      year_label = f'You are currently viewing the years {year_slider_value[0]} to {year_slider_value[1]}!'
      df['Variability'] = df.apply(
          lambda row: row['Date in Fraction of Year'] % cycle_length_value, axis=1)
      var_fig = px.scatter(df, x='Variability', y='Monthly Mean', labels=..., title=...)
      return fig, var_fig, year_label
  \<close>
  The model returns the new state together with either the exception raised or the
  three outputs. \<^verbatim>\<open>df\<close> and \<^verbatim>\<open>fig\<close> are the module's objects; \<^verbatim>\<open>year_label\<close> and
  \<^verbatim>\<open>var_fig\<close> are assigned in the function and so are local to it. The x-axis range and
  the cleared trace tuple are written to the shared figure before \<^verbatim>\<open>df.iloc\<close> can
  raise, so they stay written when it does. The slider values are integers; the
  callback itself checks none of its arguments.
\<close>

definition refresh_plots ::
  "state \<Rightarrow> int \<times> int \<Rightarrow> int \<Rightarrow> float64 \<Rightarrow> state \<times> (error + figure \<times> figure \<times> string)" where
  "refresh_plots s year_slider_value smoothness_value cycle_length_value =
     (let fig1 = (fig s)\<lparr>xaxis_range := Some year_slider_value\<rparr>;
          fig2 = fig1\<lparr>fig_data := take 1 (fig_data fig1)\<rparr>
      in case iloc_step (df s) smoothness_value of
           Inl e \<Rightarrow> (s\<lparr>fig := fig2\<rparr>, Inl e)
         | Inr smoothed_df \<Rightarrow>
             (let fig3 = fig2\<lparr>fig_data := fig_data fig2 @ [Smoothed smoothed_df]\<rparr>;
                  label = viewing_the_years year_slider_value;
                  df' = apply_Variability cycle_length_value (df s);
                  var_fig' = px_scatter df' ''Years'' cycle_length_value
              in (\<lparr>df = df', fig = fig3\<rparr>, Inr (fig3, var_fig', label))))"

text \<open>A session: the callback invoked with one parameter triple after another.\<close>

type_synonym params = "(int \<times> int) \<times> int \<times> float64"

fun run :: "state \<Rightarrow> params list \<Rightarrow> state" where
  "run s [] = s"
| "run s ((w, n, c) # ps) = run (fst (refresh_plots s w n c)) ps"

subsection \<open>Reading the outputs\<close>

text \<open>
  The three outputs are the updated line plot, the new scatter plot and the label.
  The overlay is the trace the callback appended last; the folded series is the one
  trace of the scatter plot.
\<close>

type_synonym outputs = "error + figure \<times> figure \<times> string"

definition overlay_points :: "outputs \<Rightarrow> error + (float64 \<times> float64) list" where
  "overlay_points out = map_sum id (\<lambda>(f, v, l). points (last (fig_data f))) out"

definition folded_points :: "outputs \<Rightarrow> error + (float64 \<times> float64) list" where
  "folded_points out = map_sum id (\<lambda>(f, v, l). points (hd (fig_data v))) out"

definition label_of :: "outputs \<Rightarrow> error + string" where
  "label_of out = map_sum id (\<lambda>(f, v, l). l) out"

definition primary_of :: "outputs \<Rightarrow> error + figure" where
  "primary_of out = map_sum id (\<lambda>(f, v, l). f) out"

text \<open>
  What a call reads of the state and never changes: the parsed columns, and the shared
  figure up to its x-axis range and the traces after the first.
\<close>

definition frame :: "state \<Rightarrow> parsed_row list \<times> figure" where
  "frame s = (map parsed (df s),
              (fig s)\<lparr>xaxis_range := None, fig_data := take 1 (fig_data (fig s))\<rparr>)"

text \<open>
  A date is shown by a figure whose x axis has the range \<open>w\<close> when it lies between the
  two bounds; a window spans the data when it shows every date.
\<close>

definition in_window :: "int \<times> int \<Rightarrow> float64 \<Rightarrow> bool" where
  "in_window w d =
     (case d of Fin t \<Rightarrow> of_int (fst w) \<le> t \<and> t \<le> of_int (snd w) | _ \<Rightarrow> False)"

text \<open>Synthetic rows for examples: a row with a given date and monthly mean.\<close>

definition synthetic :: "rat \<Rightarrow> rat \<Rightarrow> parsed_row" where
  "synthetic t v =
     \<lparr>Year = \<lfloor>t\<rfloor>, Month = 1, Date_in_Fraction_of_Year = Fin t, Monthly_Mean = Fin v,
      Monthly_Mean_STD = Fin 0, Number_of_Observations = Fin 1, Definitive = 1\<rparr>"

definition three_rows :: "parsed_row list" where
  "three_rows = [synthetic 0 10, synthetic 1 20, synthetic 2 30]"

text \<open>Two rows as the data file has them: one dated mid-1749 and one dated mid-2022.\<close>

definition mid_year_rows :: "parsed_row list" where
  "mid_year_rows = [synthetic (3499 / 2) 10, synthetic (4045 / 2) 20]"

section \<open>Facts about the model\<close>

subsection \<open>Slicing with a step\<close>

lemma length_every_nth:
  "0 < k \<Longrightarrow> length (every_nth k xs) = (length xs + k - 1) div k"
proof (induction k xs rule: every_nth.induct)
  case (1 k)
  then show ?case by simp
next
  case (2 k x xs)
  show ?case
  proof (cases "k - 1 \<le> length xs")
    case True
    with 2 have "length (every_nth k (x # xs)) = Suc ((length xs) div k)"
      by simp
    also from 2(2) have "\<dots> = (length (x # xs) + k - 1) div k"
      by simp
    finally show ?thesis .
  next
    case False
    with 2 have "length (every_nth k (x # xs)) = 1" by simp
    moreover from False 2(2) have "(length (x # xs) + k - 1) div k = 1"
      by (simp add: div_nat_eqI)
    ultimately show ?thesis by simp
  qed
qed

lemma every_nth_index_bound:
  assumes "0 < k" and "i < length (every_nth k xs)"
  shows "i * k < length xs"
proof -
  from assms have "Suc i \<le> (length xs + k - 1) div k"
    by (simp add: length_every_nth)
  with assms(1) have "Suc i * k \<le> length xs + k - 1"
    by (simp add: less_eq_div_iff_mult_less_eq)
  with assms(1) show ?thesis by simp
qed

lemma nth_every_nth:
  "0 < k \<Longrightarrow> i < length (every_nth k xs) \<Longrightarrow> every_nth k xs ! i = xs ! (i * k)"
proof (induction k xs arbitrary: i rule: every_nth.induct)
  case (1 k)
  then show ?case by simp
next
  case (2 k x xs)
  show ?case
  proof (cases i)
    case 0
    then show ?thesis by simp
  next
    case (Suc j)
    with 2(3) have j: "j < length (every_nth k (drop (k - 1) xs))" by simp
    with 2(2) have b: "j * k < length (drop (k - 1) xs)"
      by (rule every_nth_index_bound)
    from 2(1)[OF 2(2) j] have "every_nth k (drop (k - 1) xs) ! j = drop (k - 1) xs ! (j * k)" .
    also from b have "\<dots> = xs ! (k - 1 + j * k)" by simp
    also from 2(2) have "\<dots> = (x # xs) ! (Suc j * k)" by (cases k) (simp_all add: ac_simps)
    finally show ?thesis using Suc by simp
  qed
qed

lemma map_every_nth: "map f (every_nth k xs) = every_nth k (map f xs)"
  by (induction k xs rule: every_nth.induct) (simp_all add: drop_map)

subsection \<open>One call of the callback\<close>

lemma refresh_plots_Inr:
  assumes "n \<noteq> 0"
  shows "refresh_plots s w n c =
    (let F = (fig s)\<lparr>xaxis_range := Some w,
                 fig_data := take 1 (fig_data (fig s)) @
                   [Smoothed (if 0 < n then every_nth (nat n) (df s)
                              else every_nth (nat (- n)) (rev (df s)))]\<rparr>;
         D = apply_Variability c (df s)
     in (\<lparr>df = D, fig = F\<rparr>, Inr (F, px_scatter D ''Years'' c, viewing_the_years w)))"
  using assms by (simp add: refresh_plots_def iloc_step_def Let_def)

lemma refresh_plots_zero:
  "refresh_plots s w 0 c =
     (s\<lparr>fig := (fig s)\<lparr>xaxis_range := Some w, fig_data := take 1 (fig_data (fig s))\<rparr>\<rparr>,
      Inl ValueError)"
  by (simp add: refresh_plots_def iloc_step_def Let_def)

lemma parsed_apply_Variability:
  "map parsed (apply_Variability c rows) = map parsed_row.truncate rows"
  by (simp add: apply_Variability_def parsed_def parsed_row.defs)

lemma traces_refresh_plots:
  "fig_data (fig s) \<noteq> [] \<Longrightarrow> fig_data (fig (fst (refresh_plots s w n c))) \<noteq> []"
  by (cases "n = 0") (simp_all add: refresh_plots_zero refresh_plots_Inr Let_def)

lemma frame_refresh_plots:
  assumes "fig_data (fig s) \<noteq> []"
  shows "frame (fst (refresh_plots s w n c)) = frame s"
proof (cases "n = 0")
  case True
  then show ?thesis by (simp add: refresh_plots_zero frame_def)
next
  case False
  then show ?thesis
    using assms
    by (cases "fig_data (fig s)")
       (simp_all add: refresh_plots_Inr frame_def Let_def parsed_apply_Variability parsed_def)
qed

lemma run_invariant:
  "fig_data (fig s) \<noteq> [] \<Longrightarrow> fig_data (fig (run s ps)) \<noteq> [] \<and> frame (run s ps) = frame s"
  by (induction s ps rule: run.induct) (simp_all add: frame_refresh_plots traces_refresh_plots)

lemma run_startup:
  "fig_data (fig (run (startup rows) ps)) \<noteq> [] \<and> frame (run (startup rows) ps) = frame (startup rows)"
  by (rule run_invariant) (simp add: startup_def px_line_def)

lemma truncate_parsed_row: "parsed_row.truncate (r :: parsed_row) = r"
  by (cases r) (simp add: parsed_row.defs)

lemma map_truncate_parsed_row: "map parsed_row.truncate (rows :: parsed_row list) = rows"
  by (induction rows) (simp_all add: truncate_parsed_row)

lemma frame_startup:
  "frame (startup rows) = (rows, px_line rows)"
  by (simp add: frame_def startup_def parsed_apply_Variability px_line_def map_truncate_parsed_row)

lemma columns_of_parsed:
  assumes "map parsed xs = map parsed ys"
  shows "map Date_in_Fraction_of_Year xs = map Date_in_Fraction_of_Year ys"
    and "map Monthly_Mean xs = map Monthly_Mean ys"
proof -
  have "map Date_in_Fraction_of_Year zs = map Date_in_Fraction_of_Year (map parsed zs)"
    for zs :: dataframe
    by (simp add: parsed_def parsed_row.defs)
  with assms show "map Date_in_Fraction_of_Year xs = map Date_in_Fraction_of_Year ys"
    by metis
  have "map Monthly_Mean zs = map Monthly_Mean (map parsed zs)" for zs :: dataframe
    by (simp add: parsed_def parsed_row.defs)
  with assms show "map Monthly_Mean xs = map Monthly_Mean ys"
    by metis
qed

lemma Smoothed_columns:
  "Smoothed xs = \<lparr>trace_name = ''Smoothed'', trace_mode = ''lines'',
      trace_line_color = Some ''red'',
      trace_x = map Date_in_Fraction_of_Year xs, trace_y = map Monthly_Mean xs\<rparr>"
  by (simp add: Smoothed_def)

lemma px_scatter_columns:
  "px_scatter (apply_Variability c xs) xl c =
     \<lparr>fig_title = Sunspot_Cycle_Length c, xaxis_title = xl, yaxis_title = ''Monthly Mean'',
      xaxis_range = None,
      fig_data = [\<lparr>trace_name = [], trace_mode = ''markers'', trace_line_color = None,
                   trace_x = map (\<lambda>d. remainder d c) (map Date_in_Fraction_of_Year xs),
                   trace_y = map Monthly_Mean xs\<rparr>]\<rparr>"
  by (simp add: px_scatter_def apply_Variability_def parsed_row.defs row.defs comp_def)

lemma outputs_frame:
  assumes "frame s = frame s'"
  shows "snd (refresh_plots s w n c) = snd (refresh_plots s' w n c)"
proof (cases "n = 0")
  case True
  then show ?thesis by (simp add: refresh_plots_zero)
next
  case False
  from assms have d: "map parsed (df s) = map parsed (df s')"
    and f: "(fig s)\<lparr>xaxis_range := None, fig_data := take (Suc 0) (fig_data (fig s))\<rparr> =
            (fig s')\<lparr>xaxis_range := None, fig_data := take (Suc 0) (fig_data (fig s'))\<rparr>"
    by (simp_all add: frame_def)
  note cols = columns_of_parsed [OF d]
  have sm: "Smoothed (every_nth k (df s)) = Smoothed (every_nth k (df s'))"
    and smr: "Smoothed (every_nth k (rev (df s))) = Smoothed (every_nth k (rev (df s')))" for k
    by (simp_all add: Smoothed_columns map_every_nth rev_map [symmetric] cols)
  have sc: "px_scatter (apply_Variability c (df s)) ''Years'' c =
            px_scatter (apply_Variability c (df s')) ''Years'' c"
    by (simp only: px_scatter_columns cols)
  have fg: "(fig s)\<lparr>xaxis_range := Some w, fig_data := take (Suc 0) (fig_data (fig s)) @ T\<rparr> =
            (fig s')\<lparr>xaxis_range := Some w, fig_data := take (Suc 0) (fig_data (fig s')) @ T\<rparr>" for T
  proof -
    define h where "h = (\<lambda>G::figure. G\<lparr>xaxis_range := Some w, fig_data := fig_data G @ T\<rparr>)"
    have e: "(fig u)\<lparr>xaxis_range := Some w, fig_data := take (Suc 0) (fig_data (fig u)) @ T\<rparr> =
          h ((fig u)\<lparr>xaxis_range := None, fig_data := take (Suc 0) (fig_data (fig u))\<rparr>)" for u
      by (simp add: h_def)
    show ?thesis by (simp only: e f)
  qed
  from False show ?thesis
    by (simp add: refresh_plots_Inr Let_def sm smr sc fg)
qed

lemma outputs_run_startup:
  "snd (refresh_plots (run (startup rows) ps) w n c) = snd (refresh_plots (startup rows) w n c)"
  using outputs_frame [of "run (startup rows) ps" "run (startup rows) []"]
  by (simp add: run_startup)

section \<open>The claims\<close>

subsection \<open>Determinism of the outputs\<close>

text \<open>
  C4. Two invocations of the callback with the same window bounds, stride and cycle
  length return the same outputs (the same two figures and label, or the same
  exception), whatever invocations came before either of them: any two sessions \<open>ps\<close>
  and \<open>qs\<close> from the same loaded data lead to states on which the outputs agree.
\<close>

theorem recompute_deterministic:
  "snd (refresh_plots (run (startup rows) ps) w n c) =
   snd (refresh_plots (run (startup rows) qs) w n c)"
  by (rule outputs_frame) (simp add: run_startup)

subsection \<open>The three-row example\<close>

lemma three_rows_overlay:
  "overlay_points (snd (refresh_plots (startup three_rows) w 2 c)) =
     Inr [(Fin 0, Fin 10), (Fin 2, Fin 30)]"
  by (simp add: refresh_plots_Inr Let_def overlay_points_def startup_def three_rows_def
      synthetic_def apply_Variability_def parsed_row.defs row.defs Smoothed_def points_def
      numeral_2_eq_2)

lemma three_rows_folded:
  "folded_points (snd (refresh_plots (startup three_rows) w 2 (Fin 1))) =
     Inr [(Fin 0, Fin 10), (Fin 0, Fin 20), (Fin 0, Fin 30)]"
  by (simp add: refresh_plots_Inr Let_def folded_points_def startup_def three_rows_def
      synthetic_def apply_Variability_def parsed_row.defs row.defs px_scatter_def points_def
      fmod_def trunc_def)

lemma three_rows_label:
  "label_of (snd (refresh_plots (startup three_rows) (0, 2) 2 c)) =
     Inr ''You are currently viewing the years 0 to 2!''"
  by (simp add: refresh_plots_Inr Let_def label_of_def viewing_the_years_def str_def digits.simps)

lemma label_0_to_2_contains:
  "sublist ''0'' ''You are currently viewing the years 0 to 2!''"
  "sublist ''2'' ''You are currently viewing the years 0 to 2!''"
  by code_simp+

text \<open>
  C8. On the series \<open>[(t=0, v=10), (t=1, v=20), (t=2, v=30)]\<close>, at any point of a
  session, the callback with stride 2 returns the overlay \<open>[(0, 10), (2, 30)]\<close>; with
  cycle length 1.0 it returns the folded phases \<open>0, 0, 0\<close> paired with the values
  \<open>10, 20, 30\<close> in the original order; and with the window \<open>(0, 2)\<close> it returns a label
  that contains \<open>0\<close> and \<open>2\<close>.
\<close>

theorem end_to_end_three_rows:
  "overlay_points (snd (refresh_plots (run (startup three_rows) ps) w 2 c)) =
     Inr [(Fin 0, Fin 10), (Fin 2, Fin 30)] \<and>
   folded_points (snd (refresh_plots (run (startup three_rows) ps) w 2 (Fin 1))) =
     Inr [(Fin 0, Fin 10), (Fin 0, Fin 20), (Fin 0, Fin 30)] \<and>
   label_of (snd (refresh_plots (run (startup three_rows) ps) (0, 2) 2 c)) =
     Inr ''You are currently viewing the years 0 to 2!'' \<and>
   sublist ''0'' ''You are currently viewing the years 0 to 2!'' \<and>
   sublist ''2'' ''You are currently viewing the years 0 to 2!''"
  by (simp only: outputs_run_startup three_rows_overlay three_rows_folded three_rows_label
      label_0_to_2_contains simp_thms)

subsection \<open>The overlay: every n-th row\<close>

lemma points_Smoothed:
  "points (Smoothed xs) = map (\<lambda>r. (Date_in_Fraction_of_Year r, Monthly_Mean r)) xs"
  by (induction xs) (simp_all add: points_def Smoothed_def)

lemma overlay_points_refresh_plots:
  assumes "n \<noteq> 0"
  shows "overlay_points (snd (refresh_plots s w n c)) =
    Inr (map (\<lambda>r. (Date_in_Fraction_of_Year r, Monthly_Mean r))
          (if 0 < n then every_nth (nat n) (df s) else every_nth (nat (- n)) (rev (df s))))"
  using assms by (simp add: refresh_plots_Inr Let_def overlay_points_def points_Smoothed)

lemma every_nth_1: "every_nth (Suc 0) xs = xs"
  by (induction xs) simp_all

lemma ceiling_stride:
  assumes "0 < k"
  shows "int ((m + k - 1) div k) = \<lceil>rat_of_nat m / rat_of_nat k\<rceil>"
proof -
  define d where "d = (m + k - 1) div k"
  have "d * k \<le> m + k - 1"
    by (simp add: d_def)
  with assms have "d * k < m + k" by simp
  then have "rat_of_nat (d * k) < rat_of_nat (m + k)"
    by (simp only: of_nat_less_iff)
  then have lo: "rat_of_nat d * rat_of_nat k - rat_of_nat k < rat_of_nat m"
    by simp
  from assms have "m + k - 1 < k + d * k"
    unfolding d_def by (rule dividend_less_div_times)
  with assms have "m \<le> d * k" by simp
  then have "rat_of_nat m \<le> rat_of_nat (d * k)"
    by (simp only: of_nat_le_iff)
  then have hi: "rat_of_nat m \<le> rat_of_nat d * rat_of_nat k"
    by simp
  from assms have kpos: "0 < rat_of_nat k" by simp
  have "\<lceil>rat_of_nat m / rat_of_nat k\<rceil> = int d"
  proof (rule ceiling_unique)
    from lo kpos show "rat_of_int (int d) - 1 < rat_of_nat m / rat_of_nat k"
      by (simp add: field_simps)
    from hi kpos show "rat_of_nat m / rat_of_nat k \<le> rat_of_int (int d)"
      by (simp add: field_simps)
  qed
  then show ?thesis by (simp add: d_def)
qed

text \<open>
  C2. For a dataframe of \<open>m\<close> rows and every integer stride \<open>n \<ge> 1\<close>, the callback
  returns an overlay of exactly \<open>\<lceil>m / n\<rceil>\<close> points; the \<open>i\<close>-th of them is the date and
  the monthly mean of row \<open>i * n\<close>, which is a row of the dataframe, so they come in the
  order of the rows; and stride 1 returns the point of every row.
\<close>

theorem resample_every_stride:
  assumes "1 \<le> n"
  shows "\<exists>pts. overlay_points (snd (refresh_plots s w n c)) = Inr pts \<and>
     int (length pts) = \<lceil>rat_of_nat (length (df s)) / rat_of_int n\<rceil> \<and>
     (\<forall>i<length pts. i * nat n < length (df s) \<and> pts ! i =
        (Date_in_Fraction_of_Year (df s ! (i * nat n)), Monthly_Mean (df s ! (i * nat n)))) \<and>
     (n = 1 \<longrightarrow> pts = map (\<lambda>r. (Date_in_Fraction_of_Year r, Monthly_Mean r)) (df s))"
proof -
  define k where "k = nat n"
  with assms have k: "0 < k" and n: "n = int k" by simp_all
  define pts where
    "pts = map (\<lambda>r. (Date_in_Fraction_of_Year r, Monthly_Mean r)) (every_nth k (df s))"
  from assms have "overlay_points (snd (refresh_plots s w n c)) = Inr pts"
    by (simp add: overlay_points_refresh_plots pts_def k_def)
  moreover have "int (length pts) = \<lceil>rat_of_nat (length (df s)) / rat_of_int n\<rceil>"
  proof -
    from k have "length pts = (length (df s) + k - 1) div k"
      by (simp add: pts_def length_every_nth)
    with ceiling_stride [OF k, of "length (df s)"] show ?thesis
      by (simp add: n)
  qed
  moreover have "i * nat n < length (df s) \<and> pts ! i =
      (Date_in_Fraction_of_Year (df s ! (i * nat n)), Monthly_Mean (df s ! (i * nat n)))"
    if "i < length pts" for i
    using that k by (simp add: pts_def nth_every_nth every_nth_index_bound n)
  moreover have "pts = map (\<lambda>r. (Date_in_Fraction_of_Year r, Monthly_Mean r)) (df s)"
    if "n = 1"
    using that by (simp add: pts_def k_def every_nth_1)
  ultimately show ?thesis by blast
qed

theorem resample_every_stride_witness:
  "(1::int) \<le> 2 \<and>
   (\<exists>pts. overlay_points (snd (refresh_plots (startup three_rows) (0, 2) 2 (Fin 1))) = Inr pts \<and>
     int (length pts) = \<lceil>rat_of_nat (length (df (startup three_rows))) / rat_of_int 2\<rceil> \<and>
     (\<forall>i<length pts. i * nat 2 < length (df (startup three_rows)) \<and> pts ! i =
        (Date_in_Fraction_of_Year (df (startup three_rows) ! (i * nat 2)),
         Monthly_Mean (df (startup three_rows) ! (i * nat 2)))) \<and>
     ((2::int) = 1 \<longrightarrow> pts =
        map (\<lambda>r. (Date_in_Fraction_of_Year r, Monthly_Mean r)) (df (startup three_rows))))"
proof -
  have h: "(1::int) \<le> 2" by simp
  show ?thesis by (rule conjI [OF h resample_every_stride [OF h]])
qed

subsection \<open>The folded series\<close>

lemma points_px_scatter:
  "points (hd (fig_data (px_scatter (apply_Variability c xs) xl c))) =
     map (\<lambda>r. (remainder (Date_in_Fraction_of_Year r) c, Monthly_Mean r)) xs"
  by (induction xs)
     (simp_all add: px_scatter_def apply_Variability_def points_def parsed_row.defs row.defs)

lemma folded_points_refresh_plots:
  assumes "n \<noteq> 0"
  shows "folded_points (snd (refresh_plots s w n c)) =
    Inr (map (\<lambda>r. (remainder (Date_in_Fraction_of_Year r) c, Monthly_Mean r)) (df s))"
  using assms by (simp add: refresh_plots_Inr Let_def folded_points_def points_px_scatter)

lemma floored_mod_bounds:
  fixes t L :: rat
  assumes "0 < L"
  shows "0 \<le> t - L * of_int \<lfloor>t / L\<rfloor>" and "t - L * of_int \<lfloor>t / L\<rfloor> < L"
proof -
  from assms floor_divide_lower [of L t] show "0 \<le> t - L * of_int \<lfloor>t / L\<rfloor>"
    by (simp add: mult.commute)
  from assms floor_divide_upper [of L t] show "t - L * of_int \<lfloor>t / L\<rfloor> < L"
    by (simp add: algebra_simps)
qed

lemma remainder_nonneg:
  assumes "0 < L" and "0 \<le> t"
  shows "remainder (Fin t) (Fin L) = Fin (t - L * of_int \<lfloor>t / L\<rfloor>)"
proof -
  from assms have "trunc (t / L) = \<lfloor>t / L\<rfloor>"
    by (simp add: trunc_def)
  then have m: "fmod t L = t - L * of_int \<lfloor>t / L\<rfloor>"
    by (simp add: fmod_def)
  from assms(1) have "\<not> fmod t L < 0"
    using floored_mod_bounds(1) [of L t] by (simp add: m)
  with assms(1) show ?thesis
    by (simp add: m Let_def)
qed

text \<open>
  C1, as amended. For every dataframe whose dates are finite and not negative and every
  finite cycle length \<open>L > 0\<close>, a call that reaches the fold (the stride is not zero)
  returns one folded point per row, in the order of the rows; the \<open>i\<close>-th point is the
  float remainder of the date of row \<open>i\<close> by \<open>L\<close>, which here is \<open>t - L * \<lfloor>t / L\<rfloor>\<close>, paired
  with the monthly mean of row \<open>i\<close>; and that phase lies in \<open>[0, L)\<close>.
\<close>

theorem fold_phases:
  assumes "n \<noteq> 0" and "0 < L"
    and "\<forall>r\<in>set (df s). \<exists>t\<ge>0. Date_in_Fraction_of_Year r = Fin t"
  shows "\<exists>ps. folded_points (snd (refresh_plots s w n (Fin L))) = Inr ps \<and>
     ps = map (\<lambda>r. (remainder (Date_in_Fraction_of_Year r) (Fin L), Monthly_Mean r)) (df s) \<and>
     length ps = length (df s) \<and>
     (\<forall>i<length (df s). \<exists>t.
        Date_in_Fraction_of_Year (df s ! i) = Fin t \<and>
        ps ! i = (Fin (t - L * of_int \<lfloor>t / L\<rfloor>), Monthly_Mean (df s ! i)) \<and>
        0 \<le> t - L * of_int \<lfloor>t / L\<rfloor> \<and> t - L * of_int \<lfloor>t / L\<rfloor> < L)"
proof -
  define ps where
    "ps = map (\<lambda>r. (remainder (Date_in_Fraction_of_Year r) (Fin L), Monthly_Mean r)) (df s)"
  from assms(1) have "folded_points (snd (refresh_plots s w n (Fin L))) = Inr ps"
    by (simp add: folded_points_refresh_plots ps_def)
  moreover note ps_def
  moreover have "length ps = length (df s)"
    by (simp add: ps_def)
  moreover have "\<exists>t. Date_in_Fraction_of_Year (df s ! i) = Fin t \<and>
        ps ! i = (Fin (t - L * of_int \<lfloor>t / L\<rfloor>), Monthly_Mean (df s ! i)) \<and>
        0 \<le> t - L * of_int \<lfloor>t / L\<rfloor> \<and> t - L * of_int \<lfloor>t / L\<rfloor> < L"
    if "i < length (df s)" for i
  proof -
    from that have "df s ! i \<in> set (df s)" by simp
    with assms(3) obtain t where t: "0 \<le> t" "Date_in_Fraction_of_Year (df s ! i) = Fin t"
      by blast
    from that have "ps ! i = (remainder (Fin t) (Fin L), Monthly_Mean (df s ! i))"
      by (simp add: ps_def t)
    then have "ps ! i = (Fin (t - L * of_int \<lfloor>t / L\<rfloor>), Monthly_Mean (df s ! i))"
      by (simp only: remainder_nonneg [OF assms(2) t(1)])
    with t(2) floored_mod_bounds [OF assms(2), of t] show ?thesis
      by blast
  qed
  ultimately show ?thesis by blast
qed

lemma three_rows_dates:
  "\<forall>r\<in>set (df (startup three_rows)). \<exists>t\<ge>0. Date_in_Fraction_of_Year r = Fin t"
  by (simp add: startup_def three_rows_def synthetic_def apply_Variability_def parsed_row.defs)

theorem fold_phases_witness:
  "(5::int) \<noteq> 0 \<and> (0::rat) < 11 \<and>
   map Date_in_Fraction_of_Year (df (startup three_rows)) = [Fin 0, Fin 1, Fin 2] \<and>
   (\<exists>ps. folded_points (snd (refresh_plots (startup three_rows) (1749, 2022) 5 (Fin 11))) = Inr ps \<and>
     ps = map (\<lambda>r. (remainder (Date_in_Fraction_of_Year r) (Fin 11), Monthly_Mean r))
            (df (startup three_rows)) \<and>
     length ps = length (df (startup three_rows)) \<and>
     (\<forall>i<length (df (startup three_rows)). \<exists>t.
        Date_in_Fraction_of_Year (df (startup three_rows) ! i) = Fin t \<and>
        ps ! i = (Fin (t - 11 * of_int \<lfloor>t / 11\<rfloor>), Monthly_Mean (df (startup three_rows) ! i)) \<and>
        0 \<le> t - 11 * of_int \<lfloor>t / 11\<rfloor> \<and> t - 11 * of_int \<lfloor>t / 11\<rfloor> < 11))"
proof -
  have h1: "(5::int) \<noteq> 0" and h2: "(0::rat) < 11" by simp_all
  note h3 = three_rows_dates
  have d: "map Date_in_Fraction_of_Year (df (startup three_rows)) = [Fin 0, Fin 1, Fin 2]"
    by (simp add: startup_def three_rows_def synthetic_def apply_Variability_def
        parsed_row.defs)
  show ?thesis by (intro conjI h1 h2 d fold_phases [OF h1 h2 h3])
qed

text \<open>
  The bound does not hold for every series: for a negative date the remainder adds the
  cycle length in a rounded step. With the date \<open>- 2\<^sup>-\<^sup>6\<^sup>0\<close> and \<open>L = 1\<close> the exact sum
  \<open>1 - 2\<^sup>-\<^sup>6\<^sup>0\<close> rounds to \<open>1\<close>, and the phase returned is \<open>L\<close> itself.
\<close>

lemma remainder_tiny_negative: "remainder (Fin (- (1 / 2 ^ 60))) (Fin 1) = Fin 1"
  by code_simp

lemma folded_points_one_row:
  "folded_points (snd (refresh_plots (startup [synthetic t v]) w 5 c)) =
     Inr [(remainder (Fin t) c, Fin v)]"
  by (simp add: folded_points_refresh_plots startup_def synthetic_def apply_Variability_def
      parsed_row.defs row.defs del: remainder.simps)

theorem fold_phases_counterexample:
  "folded_points
     (snd (refresh_plots (startup [synthetic (- (1 / 2 ^ 60)) 10]) (1749, 2022) 5 (Fin 1))) =
     Inr [(Fin 1, Fin 10)] \<and> \<not> (1 :: rat) < 1"
  by (simp only: folded_points_one_row remainder_tiny_negative less_irrefl simp_thms)

subsection \<open>What a call changes in the dataframe\<close>

text \<open>
  The callback writes the \<^verbatim>\<open>Variability\<close> column of the shared dataframe: after a call
  with cycle length 1 the dataframe differs from the one built at start-up.
\<close>

lemma three_rows_remainders:
  "remainder (Fin 0) (Fin 11) = Fin 0"
  "remainder (Fin 1) (Fin 11) = Fin 1"
  "remainder (Fin 2) (Fin 11) = Fin 2"
  "remainder (Fin 0) (Fin 1) = Fin 0"
  "remainder (Fin 1) (Fin 1) = Fin 0"
  "remainder (Fin 2) (Fin 1) = Fin 0"
  by code_simp+

theorem dataframe_mutated_counterexample:
  "df (fst (refresh_plots (startup three_rows) (0, 2) 2 (Fin 1))) \<noteq> df (startup three_rows)"
  by (simp add: refresh_plots_Inr Let_def startup_def three_rows_def synthetic_def
      apply_Variability_def parsed_row.defs row.defs three_rows_remainders del: remainder.simps)

lemma parsed_run_startup: "map parsed (df (run (startup rows) ps)) = rows"
  using run_startup [of rows ps] frame_startup [of rows] by (simp add: frame_def)

text \<open>
  C3, as amended. After any session of calls, failed or not, the seven parsed columns
  of every row, and the number and order of the rows, are as loaded. A call with
  stride zero leaves the whole dataframe as it was; every other call overwrites the
  derived \<^verbatim>\<open>Variability\<close> column with the phases for its cycle length, and that column
  stays in the dataframe until the next call.
\<close>

theorem parsed_columns_preserved:
  "map parsed (df (run (startup rows) ps)) = rows \<and>
   df (fst (refresh_plots s w 0 c)) = df s \<and>
   (n \<noteq> 0 \<longrightarrow> df (fst (refresh_plots s w n c)) = apply_Variability c (df s))"
  by (simp add: parsed_run_startup refresh_plots_zero refresh_plots_Inr Let_def)

theorem parsed_columns_preserved_witness:
  "(2::int) \<noteq> 0 \<and>
   map parsed (df (run (startup three_rows) [((0, 2), 2, Fin 1)])) = three_rows \<and>
   df (fst (refresh_plots (startup three_rows) (0, 2) 0 (Fin 1))) = df (startup three_rows) \<and>
   df (fst (refresh_plots (startup three_rows) (0, 2) 2 (Fin 1))) =
      apply_Variability (Fin 1) (df (startup three_rows))"
proof -
  have h: "(2::int) \<noteq> 0" by simp
  from h parsed_columns_preserved
    [of three_rows "[((0, 2), 2, Fin 1)]" "startup three_rows" "(0, 2)" "Fin 1" 2]
  show ?thesis by blast
qed

subsection \<open>Cycle lengths that are not positive\<close>

text \<open>
  A cycle length of zero is not rejected: the call returns, and every phase is NaN.
\<close>

theorem zero_cycle_length_counterexample:
  "folded_points (snd (refresh_plots (startup three_rows) (0, 2) 2 (Fin 0))) =
     Inr [(NaN, Fin 10), (NaN, Fin 20), (NaN, Fin 30)]"
  by (simp add: folded_points_refresh_plots startup_def three_rows_def synthetic_def
      apply_Variability_def parsed_row.defs row.defs)

lemma remainder_zero: "remainder a (Fin 0) = NaN"
  by (cases a) simp_all

text \<open>
  C5, as amended. The callback does not check the cycle length. For every cycle length
  \<open>L \<le> 0\<close>, a call with a non-zero stride returns normally with one folded point per
  row, whose phase is the float remainder of the date by \<open>L\<close>; for \<open>L = 0\<close> every phase
  is NaN.
\<close>

theorem cycle_length_not_validated:
  assumes "n \<noteq> 0" and "L \<le> 0"
  shows "folded_points (snd (refresh_plots s w n (Fin L))) =
      Inr (map (\<lambda>r. (remainder (Date_in_Fraction_of_Year r) (Fin L), Monthly_Mean r)) (df s)) \<and>
    (L = 0 \<longrightarrow> folded_points (snd (refresh_plots s w n (Fin L))) =
      Inr (map (\<lambda>r. (NaN, Monthly_Mean r)) (df s)))"
  using assms(1) by (simp add: folded_points_refresh_plots remainder_zero del: remainder.simps)

theorem cycle_length_not_validated_witness:
  "(2::int) \<noteq> 0 \<and> (0::rat) \<le> 0 \<and>
   folded_points (snd (refresh_plots (startup three_rows) (0, 2) 2 (Fin 0))) =
      Inr (map (\<lambda>r. (NaN, Monthly_Mean r)) (df (startup three_rows)))"
proof -
  have h1: "(2::int) \<noteq> 0" and h2: "(0::rat) \<le> 0" by simp_all
  from cycle_length_not_validated [OF h1 h2, of "startup three_rows" "(0, 2)"] h1 h2
  show ?thesis by blast
qed

subsection \<open>Strides that are not positive\<close>

text \<open>
  A negative stride is not rejected: the overlay then runs backwards from the last row.
\<close>

theorem negative_stride_counterexample:
  "overlay_points (snd (refresh_plots (startup three_rows) (0, 2) (- 1) (Fin 1))) =
     Inr [(Fin 2, Fin 30), (Fin 1, Fin 20), (Fin 0, Fin 10)]"
  by (simp add: overlay_points_refresh_plots startup_def three_rows_def synthetic_def
      apply_Variability_def parsed_row.defs row.defs)

text \<open>
  C6, as amended. A call with stride zero fails with the \<^verbatim>\<open>ValueError\<close> that
  \<^verbatim>\<open>df.iloc[::0]\<close> raises, and leaves the dataframe as it was. A negative stride \<open>n\<close>
  is accepted: the call returns the overlay of every \<open>|n|\<close>-th row counted back from
  the last row.
\<close>

theorem stride_zero_raises:
  "snd (refresh_plots s w 0 c) = Inl ValueError \<and>
   df (fst (refresh_plots s w 0 c)) = df s \<and>
   (n < 0 \<longrightarrow> overlay_points (snd (refresh_plots s w n c)) =
      Inr (map (\<lambda>r. (Date_in_Fraction_of_Year r, Monthly_Mean r))
            (every_nth (nat (- n)) (rev (df s)))))"
  by (simp add: refresh_plots_zero overlay_points_refresh_plots)

theorem stride_zero_raises_witness:
  "(- 1 :: int) < 0 \<and>
   snd (refresh_plots (startup three_rows) (0, 2) 0 (Fin 1)) = Inl ValueError \<and>
   df (fst (refresh_plots (startup three_rows) (0, 2) 0 (Fin 1))) = df (startup three_rows) \<and>
   overlay_points (snd (refresh_plots (startup three_rows) (0, 2) (- 1) (Fin 1))) =
      Inr (map (\<lambda>r. (Date_in_Fraction_of_Year r, Monthly_Mean r))
            (every_nth (nat (- (- 1))) (rev (df (startup three_rows)))))"
proof -
  have h: "(- 1 :: int) < 0" by simp
  from h stride_zero_raises [of "startup three_rows" "(0, 2)" "Fin 1" "- 1"]
  show ?thesis by blast
qed

subsection \<open>The label and the window\<close>

text \<open>A window whose start lies after its end is not rejected.\<close>

theorem reversed_window_counterexample:
  "label_of (snd (refresh_plots (startup three_rows) (5, 3) 2 (Fin 1))) =
     Inr ''You are currently viewing the years 5 to 3!''"
  by (simp add: refresh_plots_Inr Let_def label_of_def viewing_the_years_def str_def
      digits.simps)

text \<open>
  C7, as amended. For every pair of window bounds, in either order, a call with a
  non-zero stride returns the label \<^verbatim>\<open>You are currently viewing the years a to b!\<close>,
  which contains the decimal rendering of both bounds as given; the bounds are not
  compared and not clamped, and the x-axis range of the returned figure is exactly
  \<open>(a, b)\<close>.
\<close>

theorem label_embeds_bounds:
  assumes "n \<noteq> 0"
  shows "label_of (snd (refresh_plots s (a, b) n c)) =
      Inr (''You are currently viewing the years '' @ str a @ '' to '' @ str b @ ''!'') \<and>
    sublist (str a) (''You are currently viewing the years '' @ str a @ '' to '' @ str b @ ''!'') \<and>
    sublist (str b) (''You are currently viewing the years '' @ str a @ '' to '' @ str b @ ''!'') \<and>
    map_sum id xaxis_range (primary_of (snd (refresh_plots s (a, b) n c))) = Inr (Some (a, b))"
proof -
  have "sublist (str b) ((''You are currently viewing the years '' @ str a @ '' to '') @ str b @ ''!'')"
    by (rule sublist_appendI)
  then have "sublist (str b) (''You are currently viewing the years '' @ str a @ '' to '' @ str b @ ''!'')"
    by simp
  moreover have "sublist (str a) (''You are currently viewing the years '' @ str a @ '' to '' @ str b @ ''!'')"
    by (rule sublist_appendI)
  moreover from assms have "label_of (snd (refresh_plots s (a, b) n c)) =
      Inr (''You are currently viewing the years '' @ str a @ '' to '' @ str b @ ''!'')"
    by (simp add: refresh_plots_Inr Let_def label_of_def viewing_the_years_def)
  moreover from assms
  have "map_sum id xaxis_range (primary_of (snd (refresh_plots s (a, b) n c))) = Inr (Some (a, b))"
    by (simp add: refresh_plots_Inr Let_def primary_of_def)
  ultimately show ?thesis by blast
qed

theorem label_embeds_bounds_witness:
  "(2::int) \<noteq> 0 \<and> \<not> (5::int) \<le> 3 \<and>
   label_of (snd (refresh_plots (startup three_rows) (5, 3) 2 (Fin 1))) =
      Inr (''You are currently viewing the years '' @ str 5 @ '' to '' @ str 3 @ ''!'') \<and>
   sublist (str 5) (''You are currently viewing the years '' @ str 5 @ '' to '' @ str 3 @ ''!'') \<and>
   sublist (str 3) (''You are currently viewing the years '' @ str 5 @ '' to '' @ str 3 @ ''!'') \<and>
   map_sum id xaxis_range (primary_of (snd (refresh_plots (startup three_rows) (5, 3) 2 (Fin 1)))) =
      Inr (Some (5, 3))"
proof -
  have h: "(2::int) \<noteq> 0" and o: "\<not> (5::int) \<le> 3" by simp_all
  from label_embeds_bounds [OF h, of "startup three_rows" 5 3 "Fin 1"] h o
  show ?thesis by blast
qed

subsection \<open>The starting values\<close>

lemma mid_year_remainders:
  "remainder (Fin (3499 / 2)) (Fin 11) = Fin (1 / 2)"
  "remainder (Fin (4045 / 2)) (Fin 11) = Fin (19 / 2)"
  by code_simp+

lemma columns_synthetic:
  "Date_in_Fraction_of_Year (synthetic t v) = Fin t" "Monthly_Mean (synthetic t v) = Fin v"
  by (simp_all add: synthetic_def)

lemma mid_year_startup:
  "df (startup mid_year_rows) =
     [parsed_row.extend (synthetic (3499 / 2) 10) (row.fields (Fin (1 / 2))),
      parsed_row.extend (synthetic (4045 / 2) 20) (row.fields (Fin (19 / 2)))]"
  by (simp add: startup_def mid_year_rows_def apply_Variability_def truncate_parsed_row
      columns_synthetic mid_year_remainders del: remainder.simps)

lemma mid_year_overlay:
  "overlay_points (snd (refresh_plots (startup mid_year_rows) (1749, 2022) 5 (Fin 11))) =
     Inr [(Fin (3499 / 2), Fin 10)]"
  by (simp add: overlay_points_refresh_plots mid_year_startup synthetic_def parsed_row.defs
      eval_nat_numeral)

lemma mid_year_folded:
  "folded_points (snd (refresh_plots (startup mid_year_rows) (1749, 2022) 5 (Fin 11))) =
     Inr [(Fin (1 / 2), Fin 10), (Fin (19 / 2), Fin 20)]"
  by (simp add: folded_points_refresh_plots mid_year_startup synthetic_def parsed_row.defs
      mid_year_remainders del: remainder.simps)

lemma mid_year_primary:
  "map_sum id (\<lambda>f. (xaxis_range f, trace_x (hd (fig_data f))))
     (primary_of (snd (refresh_plots (startup mid_year_rows) (1749, 2022) 5 (Fin 11)))) =
     Inr (Some (1749, 2022), [Fin (3499 / 2), Fin (4045 / 2)])"
  by (simp add: refresh_plots_Inr Let_def primary_of_def startup_def px_line_def
      mid_year_rows_def synthetic_def)

lemma mid_year_label:
  "label_of (snd (refresh_plots (startup mid_year_rows) (1749, 2022) 5 (Fin 11))) =
     Inr ''You are currently viewing the years 1749 to 2022!''"
  by (simp add: refresh_plots_Inr Let_def label_of_def viewing_the_years_def str_def
      digits.simps)

lemma mid_year_var_fig:
  "points (hd (fig_data (var_fig mid_year_rows))) =
     [(Fin (1 / 2), Fin 10), (Fin (19 / 2), Fin 20)]"
  by (simp add: var_fig_def points_px_scatter mid_year_rows_def synthetic_def
      mid_year_remainders del: remainder.simps)

lemma mid_year_not_spanned:
  "in_window (1749, 2022) (Fin (3499 / 2))" "\<not> in_window (1749, 2022) (Fin (4045 / 2))"
  by (simp_all add: in_window_def)

text \<open>
  C9. The layout starts the year slider at \<open>(1749, 2022)\<close>, the stride at 5 and the cycle
  length at 11, and the views and the label before any interaction are computed from
  these values: on the two rows dated 1749.5 and 2022.5 the start-up scatter plot holds
  the phases \<open>0.5\<close> and \<open>9.5\<close> of a cycle of 11 years and the start-up label names 1749 and
  2022, and the callback invoked with the three starting values returns the overlay of
  every fifth row, the same folded points, the same label and the x-axis range
  \<open>(1749, 2022)\<close>. The comment on the slider says that it starts by showing the entire
  domain of the plot, but that window is a literal of the layout and not the span of the
  data: the row dated 2022.5 is a point of the line plot, and the starting window does
  not show it.
\<close>

theorem starting_values_mid_year:
  "year_slider = (1749, 2022) \<and> smoothness = 5 \<and> cycle_len = Fin 11 \<and>
   year_label = ''You are currently viewing the years 1749 to 2022!'' \<and>
   points (hd (fig_data (var_fig mid_year_rows))) =
     [(Fin (1 / 2), Fin 10), (Fin (19 / 2), Fin 20)] \<and>
   overlay_points (snd (refresh_plots (startup mid_year_rows) year_slider smoothness cycle_len)) =
     Inr [(Fin (3499 / 2), Fin 10)] \<and>
   folded_points (snd (refresh_plots (startup mid_year_rows) year_slider smoothness cycle_len)) =
     Inr [(Fin (1 / 2), Fin 10), (Fin (19 / 2), Fin 20)] \<and>
   label_of (snd (refresh_plots (startup mid_year_rows) year_slider smoothness cycle_len)) =
     Inr year_label \<and>
   map_sum id (\<lambda>f. (xaxis_range f, trace_x (hd (fig_data f))))
     (primary_of (snd (refresh_plots (startup mid_year_rows) year_slider smoothness cycle_len))) =
     Inr (Some year_slider, [Fin (3499 / 2), Fin (4045 / 2)]) \<and>
   in_window year_slider (Fin (3499 / 2)) \<and>
   \<not> in_window year_slider (Fin (4045 / 2))"
  by (simp only: year_slider_def smoothness_def cycle_len_def year_label_def mid_year_overlay
      mid_year_folded mid_year_label mid_year_primary mid_year_var_fig mid_year_not_spanned
      simp_thms)

subsection \<open>The traces of the shared figure\<close>

text \<open>
  A call with stride zero raises after the old overlay has been cleared and before a new
  one is added: it leaves the figure with one trace.
\<close>

theorem stride_zero_one_trace_counterexample:
  "length (fig_data (fig (fst (refresh_plots (startup three_rows) (0, 2) 0 (Fin 1))))) = 1"
  by (simp add: refresh_plots_zero startup_def px_line_def)

lemma first_trace_run_startup:
  "take (Suc 0) (fig_data (fig (run (startup rows) ps))) = fig_data (px_line rows)"
proof -
  from run_startup [of rows ps] frame_startup [of rows]
  have "(fig (run (startup rows) ps))\<lparr>xaxis_range := None,
          fig_data := take (Suc 0) (fig_data (fig (run (startup rows) ps)))\<rparr> = px_line rows"
    by (simp add: frame_def)
  then have "fig_data ((fig (run (startup rows) ps))\<lparr>xaxis_range := None,
          fig_data := take (Suc 0) (fig_data (fig (run (startup rows) ps)))\<rparr>) =
        fig_data (px_line rows)"
    by (rule arg_cong)
  then show ?thesis by simp
qed

text \<open>
  C10, as amended. After every call with a non-zero stride, whatever calls came before,
  the shared figure holds exactly two traces: the line trace of the full series made at
  start-up, as trace 0, and the overlay trace this call added; the figure returned is
  that shared figure. A call with stride zero leaves only the start-up trace.
\<close>

theorem two_traces_after_refresh:
  assumes "n \<noteq> 0"
  shows "(\<exists>original smoothed.
     fig_data (px_line rows) = [original] \<and>
     fig_data (fig (fst (refresh_plots (run (startup rows) ps) w n c))) = [original, smoothed] \<and>
     primary_of (snd (refresh_plots (run (startup rows) ps) w n c)) =
       Inr (fig (fst (refresh_plots (run (startup rows) ps) w n c))) \<and>
     overlay_points (snd (refresh_plots (run (startup rows) ps) w n c)) = Inr (points smoothed)) \<and>
   fig_data (fig (fst (refresh_plots (run (startup rows) ps) w 0 c))) = fig_data (px_line rows)"
proof
  from assms show "\<exists>original smoothed.
     fig_data (px_line rows) = [original] \<and>
     fig_data (fig (fst (refresh_plots (run (startup rows) ps) w n c))) = [original, smoothed] \<and>
     primary_of (snd (refresh_plots (run (startup rows) ps) w n c)) =
       Inr (fig (fst (refresh_plots (run (startup rows) ps) w n c))) \<and>
     overlay_points (snd (refresh_plots (run (startup rows) ps) w n c)) = Inr (points smoothed)"
    by (simp add: refresh_plots_Inr Let_def first_trace_run_startup primary_of_def
        overlay_points_def) (simp add: px_line_def)
  show "fig_data (fig (fst (refresh_plots (run (startup rows) ps) w 0 c))) =
      fig_data (px_line rows)"
    by (simp add: refresh_plots_zero first_trace_run_startup)
qed

theorem two_traces_after_refresh_witness:
  "(5::int) \<noteq> 0 \<and>
   (\<exists>original smoothed.
     fig_data (px_line three_rows) = [original] \<and>
     fig_data (fig (fst (refresh_plots
         (run (startup three_rows) [((0, 2), 0, Fin 1), ((5, 3), - 1, Fin 0), ((0, 2), 2, Fin 1)])
         (1749, 2022) 5 (Fin 11)))) = [original, smoothed] \<and>
     primary_of (snd (refresh_plots
         (run (startup three_rows) [((0, 2), 0, Fin 1), ((5, 3), - 1, Fin 0), ((0, 2), 2, Fin 1)])
         (1749, 2022) 5 (Fin 11))) =
       Inr (fig (fst (refresh_plots
         (run (startup three_rows) [((0, 2), 0, Fin 1), ((5, 3), - 1, Fin 0), ((0, 2), 2, Fin 1)])
         (1749, 2022) 5 (Fin 11)))) \<and>
     overlay_points (snd (refresh_plots
         (run (startup three_rows) [((0, 2), 0, Fin 1), ((5, 3), - 1, Fin 0), ((0, 2), 2, Fin 1)])
         (1749, 2022) 5 (Fin 11))) = Inr (points smoothed))"
proof -
  have h: "(5::int) \<noteq> 0" by simp
  show ?thesis
    by (rule conjI [OF h two_traces_after_refresh [OF h, THEN conjunct1]])
qed

end
